theory Spec2Isabelle
  imports Complex_Main "HOL-Library.AList"
begin

section \<open>Python values, Stripe objects and errors\<close>

text \<open>
  The copiers read Stripe objects through \<open>hasattr\<close>, \<open>getattr\<close> and plain attribute
  access, and build keyword dictionaries of arbitrary values. Attribute values and
  parameter values are therefore kept dynamic: \<open>pyval\<close> is the universe of values, an
  object or dictionary is an insertion-ordered association list. A float is carried by the
  rational number it denotes (NaN and the infinities are outside the model).
\<close>

datatype pyval =
    VNone
  | VBool bool
  | VInt int
  | VFloat rat
  | VStr string
  | VList "pyval list"
  | VObj "(string \<times> pyval) list"

type_synonym obj = "(string \<times> pyval) list"

text \<open>Python truthiness (\<open>bool(v)\<close>, what \<open>if v:\<close> and \<open>and\<close> test).\<close>

fun truthy :: "pyval \<Rightarrow> bool" where
  "truthy VNone = False"
| "truthy (VBool b) = b"
| "truthy (VInt i) = (i \<noteq> 0)"
| "truthy (VFloat r) = (r \<noteq> 0)"
| "truthy (VStr s) = (s \<noteq> [])"
| "truthy (VList xs) = (xs \<noteq> [])"
| "truthy (VObj kvs) = (kvs \<noteq> [])"

text \<open>
  Python \<open>==\<close>: numbers (and booleans, which are the integers 0 and 1) compare by value
  across \<open>bool\<close>, \<open>int\<close> and \<open>float\<close>; everything else compares within its own type.
  The copiers compare scalars only (ids, names, currencies, amounts, intervals), on
  which this is exact.
\<close>

fun num_of :: "pyval \<Rightarrow> rat option" where
  "num_of (VBool b) = Some (if b then 1 else 0)"
| "num_of (VInt i) = Some (of_int i)"
| "num_of (VFloat r) = Some r"
| "num_of _ = None"

definition py_eq :: "pyval \<Rightarrow> pyval \<Rightarrow> bool" where
  "py_eq a b =
     (case (num_of a, num_of b) of
        (Some x, Some y) \<Rightarrow> x = y
      | _ \<Rightarrow> a = b)"

text \<open>\<open>d[k] = v\<close> on a Python dict: overwrite in place, or append a new key.\<close>

fun dict_set :: "string \<Rightarrow> pyval \<Rightarrow> obj \<Rightarrow> obj" where
  "dict_set k v [] = [(k, v)]"
| "dict_set k v ((k', v') # rest) =
     (if k' = k then (k, v) # rest else (k', v') # dict_set k v rest)"

text \<open>\<open>d.get(k)\<close> is \<open>map_of d k\<close>; \<open>k in d\<close> and \<open>hasattr(o, k)\<close> are:\<close>

definition has_key :: "obj \<Rightarrow> string \<Rightarrow> bool" where
  "has_key d k = (map_of d k \<noteq> None)"

text \<open>
  The exceptions the modelled code raises. \<open>AttributeError\<close> carries the name of the
  missing attribute, the others the message.
\<close>

datatype error =
    StripeClientError string
  | ValueError string
  | AttributeError string
  | TypeError string
  | KeyError string

text \<open>\<open>v.name\<close> on a value: only a Stripe object has data attributes.\<close>

fun getattr :: "pyval \<Rightarrow> string \<Rightarrow> error + pyval" where
  "getattr (VObj kvs) k =
     (case map_of kvs k of None \<Rightarrow> Inl (AttributeError k) | Some v \<Rightarrow> Inr v)"
| "getattr _ k = Inl (AttributeError k)"

text \<open>
  A listed Stripe entity. Its \<open>id\<close> is a string and its \<open>metadata\<close> a string-to-string
  map (empty when absent: the code only ever tests \<open>metadata\<close> for truthiness before
  using it); every other attribute is dynamic and may be missing.
\<close>

record entity =
  ent_id :: string
  metadata :: "(string \<times> string) list"
  attrs :: obj

definition e_getattr :: "entity \<Rightarrow> string \<Rightarrow> error + pyval" where
  "e_getattr e k =
     (case map_of (attrs e) k of None \<Rightarrow> Inl (AttributeError k) | Some v \<Rightarrow> Inr v)"

text \<open>\<open>getattr(e, k, None)\<close>\<close>

definition e_getattr_default :: "entity \<Rightarrow> string \<Rightarrow> pyval" where
  "e_getattr_default e k = (case map_of (attrs e) k of None \<Rightarrow> VNone | Some v \<Rightarrow> v)"

text \<open>\<open>hasattr(e, k) and e.k\<close>: the value when present and truthy.\<close>

definition e_truthy_attr :: "entity \<Rightarrow> string \<Rightarrow> pyval option" where
  "e_truthy_attr e k =
     (case map_of (attrs e) k of
        None \<Rightarrow> None
      | Some v \<Rightarrow> if truthy v then Some v else None)"

text \<open>\<open>hasattr(e, k) and e.k is not None\<close>\<close>

definition e_notnone_attr :: "entity \<Rightarrow> string \<Rightarrow> pyval option" where
  "e_notnone_attr e k =
     (case map_of (attrs e) k of
        None \<Rightarrow> None
      | Some v \<Rightarrow> if v = VNone then None else Some v)"

text \<open>\<open>dict(e.metadata)\<close> as a parameter value.\<close>

definition metadata_dict :: "(string \<times> string) list \<Rightarrow> pyval" where
  "metadata_dict md = VObj (map (\<lambda>(k, v). (k, VStr v)) md)"

section \<open>stripe\_client.py\<close>

datatype environment = PRODUCTION | TEST

text \<open>
  The requests that reach the Stripe library: \<open>stripe.X.create(api_key, **params)\<close> and
  \<open>stripe.X.modify(id, api_key, **params)\<close>, with the resource name, the environment
  whose key is used, and the parameters.
\<close>

datatype api_call =
    ApiCreate string environment obj
  | ApiModify string string environment obj

text \<open>
  Stripe itself is outside the repository: its answer to a request, given the requests
  sent before, is a parameter. \<open>Inl msg\<close> is a raised \<open>stripe.error.StripeError\<close>.
\<close>

type_synonym stripe_api = "api_call list \<Rightarrow> api_call \<Rightarrow> string + entity"

text \<open>
  What \<open>create\<close> and \<open>update\<close> return: the Stripe object of the library, or in dry-run
  mode a plain Python \<open>dict\<close> (which has keys, not attributes).
\<close>

datatype api_result = StripeObject entity | PlainDict obj

record stripe_client =
  dry_run :: bool
  api :: stripe_api

definition known_resource :: "string \<Rightarrow> bool" where
  "known_resource r = (r \<in> {''products'', ''prices'', ''coupons'', ''tax_rates''})"

text \<open>\<open>{"id": i, **params}\<close>: the keys of \<open>params\<close> are written after \<open>id\<close>.\<close>

definition dict_with_id :: "string \<Rightarrow> obj \<Rightarrow> obj" where
  "dict_with_id i params = foldl (\<lambda>d (k, v). dict_set k v d) [(''id'', VStr i)] params"

text \<open>\<open>StripeClient.create\<close>; the second component is the list of requests sent so far.\<close>

definition create ::
  "stripe_client \<Rightarrow> api_call list \<Rightarrow> string \<Rightarrow> environment \<Rightarrow> obj
     \<Rightarrow> (error + api_result) \<times> api_call list" where
  "create cl sent resource env params =
     (if env = PRODUCTION then
        (Inl (StripeClientError
           ''FORBIDDEN: Attempt to write in PRODUCTION. Only read access is allowed in production.''),
         sent)
      else if dry_run cl then
        (Inr (PlainDict (dict_with_id (''dry_run_'' @ resource @ ''_id'') params)), sent)
      else if \<not> known_resource resource then
        (Inl (StripeClientError (''Unknown resource: '' @ resource)), sent)
      else
        (case api cl sent (ApiCreate resource env params) of
           Inl msg \<Rightarrow>
             (Inl (StripeClientError (''Error creating '' @ resource @ '': '' @ msg)),
              sent @ [ApiCreate resource env params])
         | Inr e \<Rightarrow> (Inr (StripeObject e), sent @ [ApiCreate resource env params])))"

text \<open>\<open>StripeClient.update\<close>\<close>

definition update ::
  "stripe_client \<Rightarrow> api_call list \<Rightarrow> string \<Rightarrow> string \<Rightarrow> environment \<Rightarrow> obj
     \<Rightarrow> (error + api_result) \<times> api_call list" where
  "update cl sent resource resource_id env params =
     (if env = PRODUCTION then
        (Inl (StripeClientError ''FORBIDDEN: Attempt to modify in PRODUCTION''), sent)
      else if dry_run cl then
        (Inr (PlainDict (dict_with_id resource_id params)), sent)
      else if \<not> known_resource resource then
        (Inl (StripeClientError (''Unknown resource: '' @ resource)), sent)
      else
        (case api cl sent (ApiModify resource resource_id env params) of
           Inl msg \<Rightarrow>
             (Inl (StripeClientError (''Error updating '' @ resource @ '': '' @ msg)),
              sent @ [ApiModify resource resource_id env params])
         | Inr e \<Rightarrow>
             (Inr (StripeObject e), sent @ [ApiModify resource resource_id env params])))"

text \<open>\<open>r.id\<close> on what the client returned: a plain dict has no attribute \<open>id\<close>.\<close>

fun result_id :: "api_result \<Rightarrow> error + string" where
  "result_id (StripeObject e) = Inr (ent_id e)"
| "result_id (PlainDict d) = Inl (AttributeError ''id'')"

section \<open>mapper.py\<close>

text \<open>
  The per-kind counters are the dictionaries \<open>{"created": n, "updated": n, "errors": n}\<close>;
  nothing in the program adds or removes a key of them, so they are a record.
\<close>

record stat_rec =
  created :: int
  updated :: int
  errors :: int

definition zero_stats :: stat_rec where
  "zero_stats = \<lparr>created = 0, updated = 0, errors = 0\<rparr>"

record id_mapper =
  mappings :: "string \<rightharpoonup> (string \<rightharpoonup> string)"
  stats :: "string \<rightharpoonup> stat_rec"

text \<open>\<open>IDMapper.__init__\<close>\<close>

definition IDMapper_init :: id_mapper where
  "IDMapper_init =
     \<lparr>mappings = [''tax_rates'' \<mapsto> Map.empty, ''products'' \<mapsto> Map.empty,
                  ''prices'' \<mapsto> Map.empty, ''coupons'' \<mapsto> Map.empty],
      stats = [''tax_rates'' \<mapsto> zero_stats, ''products'' \<mapsto> zero_stats,
               ''prices'' \<mapsto> zero_stats, ''coupons'' \<mapsto> zero_stats]\<rparr>"

definition add_mapping :: "id_mapper \<Rightarrow> string \<Rightarrow> string \<Rightarrow> string \<Rightarrow> error + id_mapper" where
  "add_mapping m resource_type prod_id test_id =
     (case mappings m resource_type of
        None \<Rightarrow> Inl (ValueError (''Unknown resource type: '' @ resource_type))
      | Some sub \<Rightarrow>
          Inr (m\<lparr>mappings := (mappings m)(resource_type \<mapsto> sub(prod_id \<mapsto> test_id))\<rparr>))"

definition get_test_id :: "id_mapper \<Rightarrow> string \<Rightarrow> string \<Rightarrow> string option" where
  "get_test_id m resource_type prod_id =
     (case mappings m resource_type of None \<Rightarrow> None | Some sub \<Rightarrow> sub prod_id)"

text \<open>
  \<open>get_test_id\<close> with a key read from an attribute: the key is hashed before the lookup,
  so a list or an object raises; no other non-string value is a key of the table.
\<close>

definition get_test_id_py :: "id_mapper \<Rightarrow> string \<Rightarrow> pyval \<Rightarrow> error + string option" where
  "get_test_id_py m resource_type key =
     (case key of
        VStr s \<Rightarrow> Inr (get_test_id m resource_type s)
      | VList xs \<Rightarrow> Inl (TypeError ''unhashable type'')
      | VObj kvs \<Rightarrow> Inl (TypeError ''unhashable type'')
      | _ \<Rightarrow> Inr None)"

definition increment_stat :: "id_mapper \<Rightarrow> string \<Rightarrow> string \<Rightarrow> id_mapper" where
  "increment_stat m resource_type stat_type =
     (case stats m resource_type of
        None \<Rightarrow> m
      | Some r \<Rightarrow>
          if stat_type = ''created'' then
            m\<lparr>stats := (stats m)(resource_type \<mapsto> r\<lparr>created := created r + 1\<rparr>)\<rparr>
          else if stat_type = ''updated'' then
            m\<lparr>stats := (stats m)(resource_type \<mapsto> r\<lparr>updated := updated r + 1\<rparr>)\<rparr>
          else if stat_type = ''errors'' then
            m\<lparr>stats := (stats m)(resource_type \<mapsto> r\<lparr>errors := errors r + 1\<rparr>)\<rparr>
          else m)"

section \<open>copiers/base.py\<close>

text \<open>
  \<open>BaseCopier\<close> is a template: the subclass supplies the resource name, \<open>can_update\<close>
  and the three abstract methods. The methods of the four subclasses read the entity and
  the mapper and write nothing, so a hook is a function of those.
\<close>

record copier =
  resource_name :: string
  can_update :: bool
  get_create_params :: "id_mapper \<Rightarrow> entity \<Rightarrow> error + obj"
  get_update_params :: "id_mapper \<Rightarrow> entity \<Rightarrow> error + obj"
  find_existing :: "id_mapper \<Rightarrow> entity \<Rightarrow> entity list \<Rightarrow> error + entity option"

text \<open>What a run changes: the requests sent to Stripe and the mapper.\<close>

record run_state =
  requests :: "api_call list"
  mapper :: id_mapper

text \<open>\<open>params["metadata"]["prod_id"] = prod_entity.id\<close>\<close>

definition tag_prod_id :: "obj \<Rightarrow> string \<Rightarrow> error + obj" where
  "tag_prod_id params pid =
     (case map_of params ''metadata'' of
        None \<Rightarrow> Inl (KeyError ''metadata'')
      | Some (VObj md) \<Rightarrow>
          Inr (dict_set ''metadata'' (VObj (dict_set ''prod_id'' (VStr pid) md)) params)
      | Some _ \<Rightarrow> Inl (TypeError ''object does not support item assignment''))"

definition create_in_test ::
  "copier \<Rightarrow> stripe_client \<Rightarrow> run_state \<Rightarrow> entity \<Rightarrow> (error + api_result) \<times> run_state" where
  "create_in_test c cl st prod_entity =
     (case get_create_params c (mapper st) prod_entity of
        Inl e \<Rightarrow> (Inl e, st)
      | Inr params0 \<Rightarrow>
          (case tag_prod_id
                  (if \<not> has_key params0 ''metadata''
                   then dict_set ''metadata'' (VObj []) params0 else params0)
                  (ent_id prod_entity) of
             Inl e \<Rightarrow> (Inl e, st)
           | Inr params \<Rightarrow>
               (case create cl (requests st) (resource_name c) TEST params of
                  (Inl e, sent) \<Rightarrow> (Inl e, st\<lparr>requests := sent\<rparr>)
                | (Inr test_entity, sent) \<Rightarrow>
                    (case result_id test_entity of
                       Inl e \<Rightarrow> (Inl e, st\<lparr>requests := sent\<rparr>)
                     | Inr test_id \<Rightarrow>
                         (case add_mapping (mapper st) (resource_name c)
                                 (ent_id prod_entity) test_id of
                            Inl e \<Rightarrow> (Inl e, st\<lparr>requests := sent\<rparr>)
                          | Inr m \<Rightarrow>
                              (Inr test_entity,
                               \<lparr>requests = sent,
                                mapper = increment_stat m (resource_name c) ''created''\<rparr>))))))"

definition update_in_test ::
  "copier \<Rightarrow> stripe_client \<Rightarrow> run_state \<Rightarrow> entity \<Rightarrow> entity
     \<Rightarrow> (error + api_result) \<times> run_state" where
  "update_in_test c cl st test_entity prod_entity =
     (if \<not> can_update c then (Inr (StripeObject test_entity), st)
      else
        (case get_update_params c (mapper st) prod_entity of
           Inl e \<Rightarrow> (Inl e, st)
         | Inr params \<Rightarrow>
             (case update cl (requests st) (resource_name c) (ent_id test_entity) TEST params of
                (Inl e, sent) \<Rightarrow> (Inl e, st\<lparr>requests := sent\<rparr>)
              | (Inr updated_entity, sent) \<Rightarrow>
                  (case add_mapping (mapper st) (resource_name c)
                          (ent_id prod_entity) (ent_id test_entity) of
                     Inl e \<Rightarrow> (Inl e, st\<lparr>requests := sent\<rparr>)
                   | Inr m \<Rightarrow>
                       (Inr updated_entity,
                        \<lparr>requests = sent,
                         mapper = increment_stat m (resource_name c) ''updated''\<rparr>)))))"

definition copy_one ::
  "copier \<Rightarrow> stripe_client \<Rightarrow> run_state \<Rightarrow> entity \<Rightarrow> entity list
     \<Rightarrow> (error + api_result \<times> string) \<times> run_state" where
  "copy_one c cl st prod_entity test_entities =
     (case find_existing c (mapper st) prod_entity test_entities of
        Inl e \<Rightarrow> (Inl e, st)
      | Inr (Some existing) \<Rightarrow>
          (case update_in_test c cl st existing prod_entity of
             (Inl e, st') \<Rightarrow> (Inl e, st')
           | (Inr result, st') \<Rightarrow> (Inr (result, ''updated''), st'))
      | Inr None \<Rightarrow>
          (case create_in_test c cl st prod_entity of
             (Inl e, st') \<Rightarrow> (Inl e, st')
           | (Inr result, st') \<Rightarrow> (Inr (result, ''created''), st')))"

text \<open>
  One iteration of the loop of \<open>copy\<close>: \<open>copy_one\<close> inside \<open>try\<close>, and in the handler
  (which catches every exception) the error counter.
\<close>

definition copy_step ::
  "copier \<Rightarrow> stripe_client \<Rightarrow> entity list \<Rightarrow> run_state \<Rightarrow> entity \<Rightarrow> run_state" where
  "copy_step c cl test_entities st prod_entity =
     (case copy_one c cl st prod_entity test_entities of
        (Inr r, st') \<Rightarrow> st'
      | (Inl e, st') \<Rightarrow>
          st'\<lparr>mapper := increment_stat (mapper st') (resource_name c) ''errors''\<rparr>)"

text \<open>
  \<open>BaseCopier.copy\<close>. The two listings are what \<open>list_from_prod\<close> and \<open>list_from_test\<close>
  return or raise; an exception outside the per-record handler is logged and re-raised.
\<close>

definition copy ::
  "copier \<Rightarrow> stripe_client \<Rightarrow> run_state \<Rightarrow> error + entity list \<Rightarrow> error + entity list
     \<Rightarrow> (error + stat_rec) \<times> run_state" where
  "copy c cl st prod_listing test_listing =
     (case prod_listing of
        Inl e \<Rightarrow> (Inl e, st)
      | Inr prod_entities \<Rightarrow>
          (case test_listing of
             Inl e \<Rightarrow> (Inl e, st)
           | Inr test_entities \<Rightarrow>
               if prod_entities = [] then (Inr zero_stats, st)
               else
                 (let st' = foldl (copy_step c cl test_entities) st prod_entities
                  in case stats (mapper st') (resource_name c) of
                       None \<Rightarrow> (Inl (KeyError (resource_name c)), st')
                     | Some r \<Rightarrow> (Inr r, st'))))"


text \<open>
  The first strategy of every \<open>find_existing\<close>: the first test entity whose metadata is
  non-empty and has \<open>prod_id\<close> equal to the id of the production entity.
\<close>

fun find_by_prod_id :: "entity \<Rightarrow> entity list \<Rightarrow> entity option" where
  "find_by_prod_id prod_entity [] = None"
| "find_by_prod_id prod_entity (t # ts) =
     (if metadata t \<noteq> [] \<and> map_of (metadata t) ''prod_id'' = Some (ent_id prod_entity)
      then Some t else find_by_prod_id prod_entity ts)"

section \<open>Helpers for the parameter builders\<close>

text \<open>Sequencing of computations that may raise.\<close>

definition err_bind :: "error + 'a \<Rightarrow> ('a \<Rightarrow> error + 'b) \<Rightarrow> error + 'b" where
  "err_bind x f = (case x of Inl e \<Rightarrow> Inl e | Inr v \<Rightarrow> f v)"

fun map_err :: "('a \<Rightarrow> error + 'b) \<Rightarrow> 'a list \<Rightarrow> error + 'b list" where
  "map_err f [] = Inr []"
| "map_err f (x # xs) =
     err_bind (f x) (\<lambda>y. err_bind (map_err f xs) (\<lambda>ys. Inr (y # ys)))"

text \<open>
  Iterating over a value (\<open>for x in v\<close>, \<open>list(v)\<close>): a list gives its elements, a string
  its characters, an object its keys; nothing else is iterable.
\<close>

fun py_iter :: "pyval \<Rightarrow> error + pyval list" where
  "py_iter (VList xs) = Inr xs"
| "py_iter (VStr s) = Inr (map (\<lambda>ch. VStr [ch]) s)"
| "py_iter (VObj kvs) = Inr (map (\<lambda>(k, v). VStr k) kvs)"
| "py_iter _ = Inl (TypeError ''object is not iterable'')"

text \<open>\<open>hasattr(v, k)\<close> with the value, and the two guarded forms, on a value.\<close>

fun v_attr :: "pyval \<Rightarrow> string \<Rightarrow> pyval option" where
  "v_attr (VObj kvs) k = map_of kvs k"
| "v_attr _ k = None"

definition v_truthy_attr :: "pyval \<Rightarrow> string \<Rightarrow> pyval option" where
  "v_truthy_attr v k =
     (case v_attr v k of None \<Rightarrow> None | Some x \<Rightarrow> if truthy x then Some x else None)"

definition v_notnone_attr :: "pyval \<Rightarrow> string \<Rightarrow> pyval option" where
  "v_notnone_attr v k =
     (case v_attr v k of None \<Rightarrow> None | Some x \<Rightarrow> if x = VNone then None else Some x)"

text \<open>\<open>hasattr(e, k)\<close> with the value, on an entity.\<close>

definition e_attr :: "entity \<Rightarrow> string \<Rightarrow> pyval option" where
  "e_attr e k = map_of (attrs e) k"

text \<open>
  \<open>if <guard>: params[k] = v\<close>, for a list of keys in the order of the source: an entry
  with \<open>None\<close> is a guard that failed.
\<close>

definition set_if :: "string \<Rightarrow> pyval option \<Rightarrow> obj \<Rightarrow> obj" where
  "set_if k vo d = (case vo of None \<Rightarrow> d | Some v \<Rightarrow> dict_set k v d)"

definition add_params :: "(string \<times> pyval option) list \<Rightarrow> obj \<Rightarrow> obj" where
  "add_params kvs d = foldl (\<lambda>d (k, vo). set_if k vo d) d kvs"

text \<open>\<open>dict(e.metadata)\<close> when \<open>hasattr(e, "metadata") and e.metadata\<close>.\<close>

definition metadata_copy :: "entity \<Rightarrow> pyval option" where
  "metadata_copy e = (if metadata e \<noteq> [] then Some (metadata_dict (metadata e)) else None)"

text \<open>The same with \<open>params["metadata"]["prod_id"] = e.id\<close>, as the update builders do.\<close>

definition metadata_tagged :: "entity \<Rightarrow> pyval option" where
  "metadata_tagged e =
     (if metadata e \<noteq> []
      then Some (VObj (dict_set ''prod_id'' (VStr (ent_id e))
                         (map (\<lambda>(k, v). (k, VStr v)) (metadata e))))
      else None)"

text \<open>\<open>[{"name": f.name} for f in e.features]\<close> when \<open>features\<close> is present and truthy.\<close>

definition feature_names :: "entity \<Rightarrow> error + pyval option" where
  "feature_names e =
     (case e_truthy_attr e ''features'' of
        None \<Rightarrow> Inr None
      | Some fs \<Rightarrow>
          err_bind (py_iter fs) (\<lambda>xs.
          err_bind (map_err (\<lambda>f. getattr f ''name'') xs) (\<lambda>names.
          Inr (Some (VList (map (\<lambda>n. VObj [(''name'', n)]) names))))))"

text \<open>\<open>list(e.images)\<close> when \<open>images\<close> is present and truthy.\<close>

definition images_list :: "entity \<Rightarrow> error + pyval option" where
  "images_list e =
     (case e_truthy_attr e ''images'' of
        None \<Rightarrow> Inr None
      | Some v \<Rightarrow> err_bind (py_iter v) (\<lambda>xs. Inr (Some (VList xs))))"

text \<open>
  The guard of the name strategy of products and coupons: the candidate has no
  \<open>prod_id\<close> in its metadata, or an empty one, or the id of this production entity.
\<close>

definition not_tagged_otherwise :: "entity \<Rightarrow> entity \<Rightarrow> bool" where
  "not_tagged_otherwise test_entity prod_entity =
     (let existing_prod_id =
            (if metadata test_entity \<noteq> [] then map_of (metadata test_entity) ''prod_id''
             else None)
      in case existing_prod_id of
           None \<Rightarrow> True
         | Some i \<Rightarrow> i = [] \<or> i = ent_id prod_entity)"

section \<open>copiers/products.py\<close>

definition product_get_create_params :: "id_mapper \<Rightarrow> entity \<Rightarrow> error + obj" where
  "product_get_create_params m prod_entity =
     err_bind (e_getattr prod_entity ''name'') (\<lambda>name.
     err_bind (images_list prod_entity) (\<lambda>images.
     err_bind (feature_names prod_entity) (\<lambda>features.
     Inr (add_params
       [(''description'', e_truthy_attr prod_entity ''description''),
        (''active'', e_attr prod_entity ''active''),
        (''images'', images),
        (''statement_descriptor'', e_truthy_attr prod_entity ''statement_descriptor''),
        (''unit_label'', e_truthy_attr prod_entity ''unit_label''),
        (''url'', e_truthy_attr prod_entity ''url''),
        (''shippable'', e_attr prod_entity ''shippable''),
        (''features'', features),
        (''tax_code'',
           (case e_truthy_attr prod_entity ''tax_code'' of
              None \<Rightarrow> None
            | Some (VStr code) \<Rightarrow> Some (VStr code)
            | Some v \<Rightarrow> v_attr v ''id'')),
        (''metadata'', metadata_copy prod_entity)]
       [(''name'', name)]))))"

definition product_get_update_params :: "id_mapper \<Rightarrow> entity \<Rightarrow> error + obj" where
  "product_get_update_params m prod_entity =
     err_bind (images_list prod_entity) (\<lambda>images.
     err_bind (feature_names prod_entity) (\<lambda>features.
     Inr (add_params
       [(''name'', e_attr prod_entity ''name''),
        (''description'', e_attr prod_entity ''description''),
        (''active'', e_attr prod_entity ''active''),
        (''images'', images),
        (''statement_descriptor'', e_attr prod_entity ''statement_descriptor''),
        (''unit_label'', e_attr prod_entity ''unit_label''),
        (''url'', e_attr prod_entity ''url''),
        (''shippable'', e_attr prod_entity ''shippable''),
        (''features'', features),
        (''metadata'', metadata_tagged prod_entity)]
       [])))"

text \<open>Strategy 2 of products: exact name, unless the candidate is tagged for another id.\<close>

fun product_by_name :: "entity \<Rightarrow> entity list \<Rightarrow> error + entity option" where
  "product_by_name prod_entity [] = Inr None"
| "product_by_name prod_entity (t # ts) =
     err_bind (e_getattr t ''name'') (\<lambda>test_name.
     err_bind (e_getattr prod_entity ''name'') (\<lambda>prod_name.
     if py_eq test_name prod_name \<and> not_tagged_otherwise t prod_entity
     then Inr (Some t)
     else product_by_name prod_entity ts))"

definition product_find_existing ::
  "id_mapper \<Rightarrow> entity \<Rightarrow> entity list \<Rightarrow> error + entity option" where
  "product_find_existing m prod_entity test_entities =
     (case find_by_prod_id prod_entity test_entities of
        Some t \<Rightarrow> Inr (Some t)
      | None \<Rightarrow> product_by_name prod_entity test_entities)"

definition ProductCopier :: copier where
  "ProductCopier =
     \<lparr>resource_name = ''products'', can_update = True,
      get_create_params = product_get_create_params,
      get_update_params = product_get_update_params,
      find_existing = product_find_existing\<rparr>"

section \<open>copiers/prices.py\<close>

text \<open>
  \<open>p = e.product; if hasattr(p, "id"): p = p.id\<close>: the product reference is an id or an
  expanded object.
\<close>

definition product_ref :: "pyval \<Rightarrow> pyval" where
  "product_ref p = (case v_attr p ''id'' of None \<Rightarrow> p | Some i \<Rightarrow> i)"

definition price_recurring :: "entity \<Rightarrow> error + pyval option" where
  "price_recurring prod_entity =
     (case e_truthy_attr prod_entity ''recurring'' of
        None \<Rightarrow> Inr None
      | Some r \<Rightarrow>
          err_bind (getattr r ''interval'') (\<lambda>interval.
          Inr (Some (VObj (add_params
            [(''interval_count'', v_attr r ''interval_count''),
             (''usage_type'', v_attr r ''usage_type''),
             (''trial_period_days'', v_attr r ''trial_period_days'')]
            [(''interval'', interval)])))))"

definition tier_dict :: "pyval \<Rightarrow> pyval" where
  "tier_dict tier =
     VObj (add_params
       [(''unit_amount'', v_notnone_attr tier ''unit_amount''),
        (''flat_amount'', v_notnone_attr tier ''flat_amount'')]
       [(''up_to'', (case v_truthy_attr tier ''up_to'' of
                       None \<Rightarrow> VStr ''inf'' | Some u \<Rightarrow> u))])"

definition price_tiers :: "entity \<Rightarrow> error + pyval option" where
  "price_tiers prod_entity =
     (case e_truthy_attr prod_entity ''tiers'' of
        None \<Rightarrow> Inr None
      | Some ts \<Rightarrow> err_bind (py_iter ts) (\<lambda>tiers. Inr (Some (VList (map tier_dict tiers)))))"

definition price_transform_quantity :: "entity \<Rightarrow> error + pyval option" where
  "price_transform_quantity prod_entity =
     (case e_truthy_attr prod_entity ''transform_quantity'' of
        None \<Rightarrow> Inr None
      | Some tq \<Rightarrow>
          err_bind (getattr tq ''divide_by'') (\<lambda>divide_by.
          err_bind (getattr tq ''round'') (\<lambda>rnd.
          Inr (Some (VObj [(''divide_by'', divide_by), (''round'', rnd)])))))"

text \<open>
  \<open>PriceCopier.get_create_params\<close>. The message of the \<open>ValueError\<close> also names the
  product reference.
\<close>

definition price_get_create_params :: "id_mapper \<Rightarrow> entity \<Rightarrow> error + obj" where
  "price_get_create_params m prod_entity =
     err_bind (e_getattr prod_entity ''currency'') (\<lambda>currency.
     err_bind (e_getattr prod_entity ''product'') (\<lambda>prod_product.
     err_bind (get_test_id_py m ''products'' (product_ref prod_product)) (\<lambda>test_product_id.
     if test_product_id = None \<or> test_product_id = Some [] then
       Inl (ValueError ''Cannot find test product. Make sure to copy products before prices.'')
     else
       err_bind (price_recurring prod_entity) (\<lambda>recurring.
       err_bind (price_tiers prod_entity) (\<lambda>tiers.
       err_bind (price_transform_quantity prod_entity) (\<lambda>transform_quantity.
       Inr (add_params
         [(''product'', map_option VStr test_product_id),
          (''unit_amount_decimal'', e_truthy_attr prod_entity ''unit_amount_decimal''),
          (''unit_amount'',
             (if e_truthy_attr prod_entity ''unit_amount_decimal'' = None
              then e_notnone_attr prod_entity ''unit_amount'' else None)),
          (''recurring'', recurring),
          (''billing_scheme'', e_attr prod_entity ''billing_scheme''),
          (''tiers'', tiers),
          (''tiers_mode'',
             (if tiers \<noteq> None then e_attr prod_entity ''tiers_mode'' else None)),
          (''transform_quantity'', transform_quantity),
          (''active'', e_attr prod_entity ''active''),
          (''nickname'', e_truthy_attr prod_entity ''nickname''),
          (''lookup_key'', e_truthy_attr prod_entity ''lookup_key''),
          (''tax_behavior'', e_attr prod_entity ''tax_behavior''),
          (''metadata'', metadata_copy prod_entity)]
         [(''currency'', currency)])))))))"

definition price_get_update_params :: "id_mapper \<Rightarrow> entity \<Rightarrow> error + obj" where
  "price_get_update_params m prod_entity =
     Inr (add_params
       [(''active'', e_attr prod_entity ''active''),
        (''nickname'', e_attr prod_entity ''nickname''),
        (''metadata'', metadata_tagged prod_entity)]
       [])"

text \<open>Strategy 2 of prices: the first test price that has the same \<open>lookup_key\<close>.\<close>

fun price_by_lookup_key :: "pyval \<Rightarrow> entity list \<Rightarrow> entity option" where
  "price_by_lookup_key key [] = None"
| "price_by_lookup_key key (t # ts) =
     (case e_attr t ''lookup_key'' of
        None \<Rightarrow> price_by_lookup_key key ts
      | Some k \<Rightarrow> if py_eq k key then Some t else price_by_lookup_key key ts)"

text \<open>
  The body of the loop of strategy 3 for one candidate: \<open>Inr False\<close> is \<open>continue\<close>,
  \<open>Inr True\<close> is \<open>return test_entity\<close>, \<open>Inl\<close> an attribute access that raised.
\<close>

definition price_same :: "string \<Rightarrow> entity \<Rightarrow> entity \<Rightarrow> error + bool" where
  "price_same test_product_id prod_entity test_entity =
     err_bind (e_getattr test_entity ''product'') (\<lambda>test_prod.
     if \<not> py_eq (product_ref test_prod) (VStr test_product_id) then Inr False
     else
       err_bind (e_getattr test_entity ''currency'') (\<lambda>test_currency.
       err_bind (e_getattr prod_entity ''currency'') (\<lambda>prod_currency.
       if \<not> py_eq test_currency prod_currency then Inr False
       else
         err_bind
           (case e_notnone_attr prod_entity ''unit_amount'' of
              None \<Rightarrow> Inr True
            | Some prod_amount \<Rightarrow>
                err_bind (e_getattr test_entity ''unit_amount'') (\<lambda>test_amount.
                Inr (py_eq test_amount prod_amount)))
           (\<lambda>same_amount.
         if \<not> same_amount then Inr False
         else
           (let prod_recurring = e_getattr_default prod_entity ''recurring'';
                test_recurring = e_getattr_default test_entity ''recurring''
            in if truthy prod_recurring \<noteq> truthy test_recurring then Inr False
               else if truthy prod_recurring \<and> truthy test_recurring then
                 err_bind (getattr prod_recurring ''interval'') (\<lambda>prod_interval.
                 err_bind (getattr test_recurring ''interval'') (\<lambda>test_interval.
                 if \<not> py_eq prod_interval test_interval then Inr False
                 else
                   (case v_attr prod_recurring ''interval_count'' of
                      None \<Rightarrow> Inr True
                    | Some prod_count \<Rightarrow>
                        err_bind (getattr test_recurring ''interval_count'') (\<lambda>test_count.
                        Inr (py_eq prod_count test_count)))))
               else Inr True)))))"

fun price_structural :: "string \<Rightarrow> entity \<Rightarrow> entity list \<Rightarrow> error + entity option" where
  "price_structural test_product_id prod_entity [] = Inr None"
| "price_structural test_product_id prod_entity (t # ts) =
     err_bind (price_same test_product_id prod_entity t) (\<lambda>same.
     if same then Inr (Some t) else price_structural test_product_id prod_entity ts)"

definition price_find_existing ::
  "id_mapper \<Rightarrow> entity \<Rightarrow> entity list \<Rightarrow> error + entity option" where
  "price_find_existing m prod_entity test_entities =
     (case find_by_prod_id prod_entity test_entities of
        Some t \<Rightarrow> Inr (Some t)
      | None \<Rightarrow>
          (case (case e_truthy_attr prod_entity ''lookup_key'' of
                   None \<Rightarrow> None
                 | Some key \<Rightarrow> price_by_lookup_key key test_entities) of
             Some t \<Rightarrow> Inr (Some t)
           | None \<Rightarrow>
               err_bind (e_getattr prod_entity ''product'') (\<lambda>prod_product.
               err_bind (get_test_id_py m ''products'' (product_ref prod_product))
                 (\<lambda>test_product_id.
               case test_product_id of
                 None \<Rightarrow> Inr None
               | Some tid \<Rightarrow>
                   if tid = [] then Inr None
                   else price_structural tid prod_entity test_entities))))"

definition PriceCopier :: copier where
  "PriceCopier =
     \<lparr>resource_name = ''prices'', can_update = False,
      get_create_params = price_get_create_params,
      get_update_params = price_get_update_params,
      find_existing = price_find_existing\<rparr>"

section \<open>copiers/coupons.py\<close>

text \<open>
  The loop over \<open>applies_to.products\<close>: the test ids found, in order, and the product
  references for which a warning is logged because the mapper has no (non-empty) test id.
\<close>

fun map_product_ids :: "id_mapper \<Rightarrow> pyval list \<Rightarrow> error + (string list \<times> pyval list)" where
  "map_product_ids m [] = Inr ([], [])"
| "map_product_ids m (p # ps) =
     err_bind (get_test_id_py m ''products'' p) (\<lambda>test_id.
     err_bind (map_product_ids m ps) (\<lambda>(test_ids, dropped).
     case test_id of
       None \<Rightarrow> Inr (test_ids, p # dropped)
     | Some t \<Rightarrow> if t \<noteq> [] then Inr (t # test_ids, dropped) else Inr (test_ids, p # dropped)))"

definition coupon_applies_to :: "id_mapper \<Rightarrow> entity \<Rightarrow> error + (pyval option \<times> pyval list)" where
  "coupon_applies_to m prod_entity =
     (case e_truthy_attr prod_entity ''applies_to'' of
        None \<Rightarrow> Inr (None, [])
      | Some applies_to \<Rightarrow>
          (case v_truthy_attr applies_to ''products'' of
             None \<Rightarrow> Inr (None, [])
           | Some products \<Rightarrow>
               err_bind (py_iter products) (\<lambda>prod_product_ids.
               err_bind (map_product_ids m prod_product_ids) (\<lambda>(test_ids, dropped).
               Inr (if test_ids \<noteq> []
                    then Some (VObj [(''products'', VList (map VStr test_ids))])
                    else None,
                    dropped)))))"

definition coupon_get_create_params :: "id_mapper \<Rightarrow> entity \<Rightarrow> error + obj" where
  "coupon_get_create_params m prod_entity =
     err_bind (coupon_applies_to m prod_entity) (\<lambda>(applies_to, dropped).
     Inr (add_params
       [(''id'', (if ent_id prod_entity \<noteq> []
                  then Some (VStr (''test_'' @ ent_id prod_entity)) else None)),
        (''percent_off'', e_notnone_attr prod_entity ''percent_off''),
        (''amount_off'',
           (if e_notnone_attr prod_entity ''percent_off'' = None
            then e_notnone_attr prod_entity ''amount_off'' else None)),
        (''currency'',
           (if e_notnone_attr prod_entity ''percent_off'' = None
               \<and> e_notnone_attr prod_entity ''amount_off'' \<noteq> None
            then e_attr prod_entity ''currency'' else None)),
        (''duration'', e_attr prod_entity ''duration''),
        (''duration_in_months'', e_truthy_attr prod_entity ''duration_in_months''),
        (''name'', e_truthy_attr prod_entity ''name''),
        (''max_redemptions'', e_truthy_attr prod_entity ''max_redemptions''),
        (''redeem_by'', e_truthy_attr prod_entity ''redeem_by''),
        (''applies_to'', applies_to),
        (''metadata'', metadata_copy prod_entity)]
       []))"

text \<open>The warnings \<open>get_create_params\<close> logs, as the product references they name.\<close>

definition coupon_warnings :: "id_mapper \<Rightarrow> entity \<Rightarrow> error + pyval list" where
  "coupon_warnings m prod_entity =
     err_bind (coupon_applies_to m prod_entity) (\<lambda>(applies_to, dropped). Inr dropped)"

definition coupon_get_update_params :: "id_mapper \<Rightarrow> entity \<Rightarrow> error + obj" where
  "coupon_get_update_params m prod_entity =
     Inr (add_params
       [(''name'', e_attr prod_entity ''name''),
        (''metadata'', metadata_tagged prod_entity)]
       [])"

fun coupon_by_id :: "string \<Rightarrow> entity list \<Rightarrow> entity option" where
  "coupon_by_id expected_test_id [] = None"
| "coupon_by_id expected_test_id (t # ts) =
     (if ent_id t = expected_test_id then Some t else coupon_by_id expected_test_id ts)"

fun coupon_by_name :: "pyval \<Rightarrow> entity \<Rightarrow> entity list \<Rightarrow> entity option" where
  "coupon_by_name name prod_entity [] = None"
| "coupon_by_name name prod_entity (t # ts) =
     (case e_attr t ''name'' of
        None \<Rightarrow> coupon_by_name name prod_entity ts
      | Some test_name \<Rightarrow>
          if py_eq test_name name \<and> not_tagged_otherwise t prod_entity then Some t
          else coupon_by_name name prod_entity ts)"

definition coupon_find_existing ::
  "id_mapper \<Rightarrow> entity \<Rightarrow> entity list \<Rightarrow> error + entity option" where
  "coupon_find_existing m prod_entity test_entities =
     (case find_by_prod_id prod_entity test_entities of
        Some t \<Rightarrow> Inr (Some t)
      | None \<Rightarrow>
          (case coupon_by_id (''test_'' @ ent_id prod_entity) test_entities of
             Some t \<Rightarrow> Inr (Some t)
           | None \<Rightarrow>
               (case e_truthy_attr prod_entity ''name'' of
                  None \<Rightarrow> Inr None
                | Some name \<Rightarrow> Inr (coupon_by_name name prod_entity test_entities))))"

definition CouponCopier :: copier where
  "CouponCopier =
     \<lparr>resource_name = ''coupons'', can_update = True,
      get_create_params = coupon_get_create_params,
      get_update_params = coupon_get_update_params,
      find_existing = coupon_find_existing\<rparr>"

section \<open>copiers/tax\_rates.py\<close>

definition tax_rate_get_create_params :: "id_mapper \<Rightarrow> entity \<Rightarrow> error + obj" where
  "tax_rate_get_create_params m prod_entity =
     err_bind (e_getattr prod_entity ''display_name'') (\<lambda>display_name.
     err_bind (e_getattr prod_entity ''inclusive'') (\<lambda>inclusive.
     err_bind (e_getattr prod_entity ''percentage'') (\<lambda>percentage.
     Inr (add_params
       [(''description'', e_truthy_attr prod_entity ''description''),
        (''jurisdiction'', e_truthy_attr prod_entity ''jurisdiction''),
        (''country'', e_truthy_attr prod_entity ''country''),
        (''state'', e_truthy_attr prod_entity ''state''),
        (''metadata'', metadata_copy prod_entity)]
       [(''display_name'', display_name), (''inclusive'', inclusive),
        (''percentage'', percentage)]))))"

definition tax_rate_get_update_params :: "id_mapper \<Rightarrow> entity \<Rightarrow> error + obj" where
  "tax_rate_get_update_params m prod_entity =
     Inr (add_params
       [(''description'', e_attr prod_entity ''description''),
        (''display_name'', e_attr prod_entity ''display_name''),
        (''metadata'', metadata_tagged prod_entity)]
       [])"

text \<open>
  Strategy 2 of tax rates. \<open>abs(t.percentage - p.percentage) < 0.01\<close> is floating-point
  arithmetic (and raises on operands that are not numbers); it is the parameter
  \<open>close\<close>, given the two percentages.
\<close>

fun tax_rate_by_triple ::
  "(pyval \<Rightarrow> pyval \<Rightarrow> error + bool) \<Rightarrow> entity \<Rightarrow> entity list \<Rightarrow> error + entity option" where
  "tax_rate_by_triple close prod_entity [] = Inr None"
| "tax_rate_by_triple close prod_entity (t # ts) =
     err_bind (e_getattr t ''display_name'') (\<lambda>test_name.
     err_bind (e_getattr prod_entity ''display_name'') (\<lambda>prod_name.
     err_bind (e_getattr t ''percentage'') (\<lambda>test_percentage.
     err_bind (e_getattr prod_entity ''percentage'') (\<lambda>prod_percentage.
     err_bind (close test_percentage prod_percentage) (\<lambda>same_percentage.
     if py_eq test_name prod_name \<and> same_percentage
        \<and> py_eq (e_getattr_default prod_entity ''jurisdiction'')
                  (e_getattr_default t ''jurisdiction'')
     then Inr (Some t)
     else tax_rate_by_triple close prod_entity ts)))))"

definition tax_rate_find_existing ::
  "(pyval \<Rightarrow> pyval \<Rightarrow> error + bool) \<Rightarrow> id_mapper \<Rightarrow> entity \<Rightarrow> entity list
     \<Rightarrow> error + entity option" where
  "tax_rate_find_existing close m prod_entity test_entities =
     (case find_by_prod_id prod_entity test_entities of
        Some t \<Rightarrow> Inr (Some t)
      | None \<Rightarrow> tax_rate_by_triple close prod_entity test_entities)"

definition TaxRateCopier :: "(pyval \<Rightarrow> pyval \<Rightarrow> error + bool) \<Rightarrow> copier" where
  "TaxRateCopier close =
     \<lparr>resource_name = ''tax_rates'', can_update = True,
      get_create_params = tax_rate_get_create_params,
      get_update_params = tax_rate_get_update_params,
      find_existing = tax_rate_find_existing close\<rparr>"

section \<open>main.py\<close>

text \<open>
  \<open>[e.strip() for e in args.entities.split(",")]\<close>. A string is a list of bytes here, so
  \<open>strip\<close> removes the ASCII whitespace characters.
\<close>

definition is_space :: "char \<Rightarrow> bool" where
  "is_space ch = (of_char ch \<in> {9, 10, 11, 12, 13, 28, 29, 30, 31, 32 :: nat})"

definition strip :: "string \<Rightarrow> string" where
  "strip s = rev (dropWhile is_space (rev (dropWhile is_space s)))"

fun split_on :: "char \<Rightarrow> string \<Rightarrow> string list" where
  "split_on sep [] = [[]]"
| "split_on sep (ch # rest) =
     (if ch = sep then [] # split_on sep rest
      else (case split_on sep rest of
              [] \<Rightarrow> [[ch]]
            | w # ws \<Rightarrow> (ch # w) # ws))"

text \<open>\<open>copiers_map\<close>; the float comparison of the tax rate copier is its parameter.\<close>

definition copiers_map :: "(pyval \<Rightarrow> pyval \<Rightarrow> error + bool) \<Rightarrow> string \<Rightarrow> copier option" where
  "copiers_map close name =
     (if name = ''tax_rates'' then Some (TaxRateCopier close)
      else if name = ''products'' then Some ProductCopier
      else if name = ''prices'' then Some PriceCopier
      else if name = ''coupons'' then Some CouponCopier
      else None)"

text \<open>The requested entities that are keys of \<open>copiers_map\<close>, in the order requested.\<close>

definition entities_to_copy :: "(pyval \<Rightarrow> pyval \<Rightarrow> error + bool) \<Rightarrow> string \<Rightarrow> string list" where
  "entities_to_copy close entities =
     filter (\<lambda>entity. copiers_map close entity \<noteq> None)
       (map strip (split_on (CHR '','') entities))"

text \<open>
  \<open>StripeClient.list_all\<close> as seen by the copiers: what Stripe lists for a resource in an
  environment, given the requests sent so far, or the error raised.
\<close>

type_synonym listing = "string \<Rightarrow> environment \<Rightarrow> api_call list \<Rightarrow> error + entity list"

text \<open>
  The loop \<open>for entity_name in entities_to_copy\<close> of \<open>main\<close>: each copier runs \<open>copy\<close> on
  the shared client and mapper; an exception of \<open>copy\<close> is logged and the loop goes on.
\<close>

definition copy_entities ::
  "(pyval \<Rightarrow> pyval \<Rightarrow> error + bool) \<Rightarrow> stripe_client \<Rightarrow> listing \<Rightarrow> run_state
     \<Rightarrow> string list \<Rightarrow> run_state" where
  "copy_entities close cl lister st names =
     foldl (\<lambda>st entity_name.
              case copiers_map close entity_name of
                None \<Rightarrow> st
              | Some copier \<Rightarrow>
                  snd (copy copier cl st
                         (lister entity_name PRODUCTION (requests st))
                         (lister entity_name TEST (requests st))))
           st names"

text \<open>\<open>main\<close> from the creation of the mapper to the end of the copy loop.\<close>

definition main_copy ::
  "(pyval \<Rightarrow> pyval \<Rightarrow> error + bool) \<Rightarrow> stripe_client \<Rightarrow> listing \<Rightarrow> string \<Rightarrow> run_state" where
  "main_copy close cl lister entities =
     copy_entities close cl lister \<lparr>requests = [], mapper = IDMapper_init\<rparr>
       (entities_to_copy close entities)"

section \<open>The test account between two runs\<close>

text \<open>
  What the test account lists on a later run is decided by Stripe, which is outside the
  repository. For two runs in succession the test objects of one kind are a store that
  keeps what it is sent. A creation adds an object that has the parameters as its
  attributes and the metadata sent, under the id given in the parameters (as for coupons)
  or else a new id, and is refused when an object with that id exists. A modification
  overwrites the attributes sent and merges the metadata sent into the metadata stored.
  Metadata values are strings; any other value would be stored as the empty string.
\<close>

definition str_of :: "pyval \<Rightarrow> string" where
  "str_of v = (case v of VStr s \<Rightarrow> s | _ \<Rightarrow> [])"

definition params_metadata :: "obj \<Rightarrow> (string \<times> string) list" where
  "params_metadata params =
     (case map_of params ''metadata'' of
        Some (VObj md) \<Rightarrow> map (\<lambda>(k, v). (k, str_of v)) md
      | _ \<Rightarrow> [])"

definition params_attrs :: "obj \<Rightarrow> obj" where
  "params_attrs params = filter (\<lambda>(k, v). k \<noteq> ''metadata'' \<and> k \<noteq> ''id'') params"

definition stripe_create :: "string \<Rightarrow> obj \<Rightarrow> entity" where
  "stripe_create i params =
     \<lparr>ent_id = i, metadata = params_metadata params, attrs = params_attrs params\<rparr>"

definition stripe_modify :: "entity \<Rightarrow> obj \<Rightarrow> entity" where
  "stripe_modify e params =
     \<lparr>ent_id = ent_id e,
      metadata = AList.merge (metadata e) (params_metadata params),
      attrs = AList.merge (attrs e) (params_attrs params)\<rparr>"

text \<open>
  One request against the store: Stripe's answer and the store afterwards. \<open>new_id\<close>
  chooses the id of an object created without one.
\<close>

definition store_step ::
  "(entity list \<Rightarrow> string) \<Rightarrow> entity list \<Rightarrow> api_call \<Rightarrow> (string + entity) \<times> entity list" where
  "store_step new_id D call =
     (case call of
        ApiCreate resource env params \<Rightarrow>
          (let i = (case map_of params ''id'' of Some (VStr i) \<Rightarrow> i | _ \<Rightarrow> new_id D)
           in if i \<in> set (map ent_id D) then (Inl ''resource_already_exists'', D)
              else (Inr (stripe_create i params), D @ [stripe_create i params]))
      | ApiModify resource resource_id env params \<Rightarrow>
          (case find (\<lambda>e. ent_id e = resource_id) D of
             None \<Rightarrow> (Inl ''resource_missing'', D)
           | Some found \<Rightarrow>
               (Inr (stripe_modify found params),
                map (\<lambda>e. if ent_id e = resource_id then stripe_modify e params else e) D)))"

text \<open>The store after a list of requests, and the store as the \<open>api\<close> of a client.\<close>

definition store_after :: "(entity list \<Rightarrow> string) \<Rightarrow> entity list \<Rightarrow> api_call list \<Rightarrow> entity list" where
  "store_after new_id D calls = foldl (\<lambda>D call. snd (store_step new_id D call)) D calls"




section \<open>The gateway never writes to production\<close>

text \<open>
  Claim C2. For every resource name, every parameter dictionary and every request
  history, \<open>create\<close> and \<open>update\<close> called with the production environment raise the
  FORBIDDEN \<open>StripeClientError\<close> and send no request (the list of sent requests is unchanged), whatever
  the dry-run flag and whatever Stripe would have answered.
\<close>

theorem production_write_forbidden:
  "create cl sent resource PRODUCTION params =
     (Inl (StripeClientError
        ''FORBIDDEN: Attempt to write in PRODUCTION. Only read access is allowed in production.''),
      sent)
   \<and> update cl sent resource resource_id PRODUCTION params =
     (Inl (StripeClientError ''FORBIDDEN: Attempt to modify in PRODUCTION''), sent)"
  by (simp add: create_def update_def)

section \<open>Shared lemmas\<close>

lemma err_bind_simps [simp]:
  "err_bind (Inl e) f = Inl e" "err_bind (Inr v) f = f v"
  by (simp_all add: err_bind_def)

lemma create_in_test_cases:
  assumes "stats (mapper st) (resource_name c) = Some r"
  shows "(\<exists>e st'. create_in_test c cl st p = (Inl e, st') \<and> stats (mapper st') = stats (mapper st))
       \<or> (\<exists>x st'. create_in_test c cl st p = (Inr x, st')
             \<and> stats (mapper st') = (stats (mapper st))(resource_name c \<mapsto> r\<lparr>created := created r + 1\<rparr>))"
  using assms
  by (auto simp: create_in_test_def increment_stat_def add_mapping_def
      split: sum.splits prod.splits option.splits)

lemma update_in_test_cases:
  assumes "stats (mapper st) (resource_name c) = Some r"
  shows "(\<exists>e st'. update_in_test c cl st t p = (Inl e, st') \<and> stats (mapper st') = stats (mapper st))
       \<or> (\<exists>x st'. update_in_test c cl st t p = (Inr x, st')
             \<and> stats (mapper st') =
                 (if can_update c
                  then (stats (mapper st))(resource_name c \<mapsto> r\<lparr>updated := updated r + 1\<rparr>)
                  else stats (mapper st)))"
  using assms
  by (auto simp: update_in_test_def increment_stat_def add_mapping_def
      split: sum.splits prod.splits option.splits)

text \<open>
  What one iteration does to the counters of the kind: the record of the kind is replaced
  by \<open>r'\<close>, which is \<open>r\<close> itself when the entity matched and the kind cannot be updated,
  and otherwise \<open>r\<close> with exactly one counter one higher.
\<close>

lemma copy_step_counts:
  assumes "stats (mapper st) (resource_name c) = Some r"
  shows "\<exists>r'. stats (mapper (copy_step c cl D st p))
               = (stats (mapper st))(resource_name c \<mapsto> r')
          \<and> (if \<not> can_update c \<and> (\<exists>t. find_existing c (mapper st) p D = Inr (Some t))
              then r' = r
              else r' = r\<lparr>created := created r + 1\<rparr>
                 \<or> r' = r\<lparr>updated := updated r + 1\<rparr>
                 \<or> r' = r\<lparr>errors := errors r + 1\<rparr>)"
proof (cases "find_existing c (mapper st) p D")
  case (Inl e)
  with assms show ?thesis
    by (intro exI[of _ "r\<lparr>errors := errors r + 1\<rparr>"])
       (simp add: copy_step_def copy_one_def increment_stat_def)
next
  case (Inr found)
  show ?thesis
  proof (cases found)
    case None
    from create_in_test_cases[OF assms, of cl p] show ?thesis
    proof
      assume "\<exists>e st'. create_in_test c cl st p = (Inl e, st')
                \<and> stats (mapper st') = stats (mapper st)"
      with Inr None assms show ?thesis
        by (intro exI[of _ "r\<lparr>errors := errors r + 1\<rparr>"])
           (auto simp: copy_step_def copy_one_def increment_stat_def)
    next
      assume "\<exists>x st'. create_in_test c cl st p = (Inr x, st')
                \<and> stats (mapper st')
                    = (stats (mapper st))(resource_name c \<mapsto> r\<lparr>created := created r + 1\<rparr>)"
      with Inr None assms show ?thesis
        by (intro exI[of _ "r\<lparr>created := created r + 1\<rparr>"])
           (auto simp: copy_step_def copy_one_def)
    qed
  next
    case (Some t)
    from update_in_test_cases[OF assms, of cl t p] show ?thesis
    proof
      assume failed: "\<exists>e st'. update_in_test c cl st t p = (Inl e, st')
                \<and> stats (mapper st') = stats (mapper st)"
      then have "can_update c"
        by (auto simp: update_in_test_def split: if_splits)
      with failed Inr Some assms show ?thesis
        by (intro exI[of _ "r\<lparr>errors := errors r + 1\<rparr>"])
           (auto simp: copy_step_def copy_one_def increment_stat_def)
    next
      assume fin: "\<exists>x st'. update_in_test c cl st t p = (Inr x, st')
                \<and> stats (mapper st') =
                    (if can_update c
                     then (stats (mapper st))(resource_name c \<mapsto> r\<lparr>updated := updated r + 1\<rparr>)
                     else stats (mapper st))"
      show ?thesis
      proof (cases "can_update c")
        case True
        with fin Inr Some assms show ?thesis
          by (intro exI[of _ "r\<lparr>updated := updated r + 1\<rparr>"])
             (auto simp: copy_step_def copy_one_def)
      next
        case False
        with fin Inr Some assms show ?thesis
          by (intro exI[of _ r])
             (auto simp: copy_step_def copy_one_def fun_upd_idem)
      qed
    qed
  qed
qed

lemma copy_step_mono:
  assumes "stats (mapper st) (resource_name c) = Some r"
  shows "\<exists>r'. stats (mapper (copy_step c cl D st p)) (resource_name c) = Some r'
          \<and> created r \<le> created r' \<and> updated r \<le> updated r' \<and> errors r \<le> errors r'"
proof -
  from copy_step_counts[OF assms, of cl D p] obtain r' where
    eq: "stats (mapper (copy_step c cl D st p)) = (stats (mapper st))(resource_name c \<mapsto> r')"
    and alt: "r' = r \<or> r' = r\<lparr>created := created r + 1\<rparr>
                \<or> r' = r\<lparr>updated := updated r + 1\<rparr> \<or> r' = r\<lparr>errors := errors r + 1\<rparr>"
    by (auto split: if_splits)
  from alt have "created r \<le> created r' \<and> updated r \<le> updated r' \<and> errors r \<le> errors r'"
    by auto
  with eq show ?thesis by simp
qed

lemma copy_loop_mono:
  assumes "stats (mapper st) (resource_name c) = Some r"
  shows "\<exists>r'. stats (mapper (foldl (copy_step c cl D) st ps)) (resource_name c) = Some r'
          \<and> created r \<le> created r' \<and> updated r \<le> updated r' \<and> errors r \<le> errors r'"
  using assms
proof (induction ps arbitrary: st r)
  case Nil
  then show ?case by simp
next
  case (Cons p ps)
  from copy_step_mono[OF Cons.prems, of cl D p] obtain r1 where
    r1: "stats (mapper (copy_step c cl D st p)) (resource_name c) = Some r1"
    and le1: "created r \<le> created r1" "updated r \<le> updated r1" "errors r \<le> errors r1"
    by blast
  from Cons.IH[OF r1] obtain r' where
    "stats (mapper (foldl (copy_step c cl D) (copy_step c cl D st p) ps)) (resource_name c)
       = Some r'"
    "created r1 \<le> created r'" "updated r1 \<le> updated r'" "errors r1 \<le> errors r'"
    by blast
  with le1 show ?case
    by (intro exI[of _ r']) simp
qed

section \<open>Counters per processed record\<close>

text \<open>
  Claim C4, as stated, fails for a price that matches: \<open>PriceCopier.can_update\<close> is
  \<open>False\<close>, \<open>update_in_test\<close> returns before any counter is touched, and the record
  leaves created, updated and errors all as they were.
\<close>

theorem matched_price_increments_nothing:
  "stats (mapper (copy_step PriceCopier \<lparr>dry_run = False, api = (\<lambda>h c. Inl ''unused'')\<rparr>
        [\<lparr>ent_id = ''price_T'', metadata = [(''prod_id'', ''price_A'')],
          attrs = [(''currency'', VStr ''usd'')]\<rparr>]
        \<lparr>requests = [], mapper = IDMapper_init\<rparr>
        \<lparr>ent_id = ''price_A'', metadata = [],
         attrs = [(''currency'', VStr ''usd''), (''product'', VStr ''prod_A'')]\<rparr>))
     ''prices''
   = Some \<lparr>created = 0, updated = 0, errors = 0\<rparr>"
  by (simp add: copy_step_def copy_one_def update_in_test_def PriceCopier_def
      price_find_existing_def IDMapper_init_def zero_stats_def)

text \<open>
  Claim C4, amended. For every copier and every processed source record whose kind has a
  counter record \<open>r\<close>: when the record matches an existing test entity and the kind cannot be
  updated, no counter changes; in every other case exactly one of created, updated and
  errors is one higher and the other two are unchanged (so an error is counted instead
  of, never in addition to, a creation or an update). The counters of the other kinds are
  unchanged.
\<close>

theorem one_counter_per_record:
  assumes "stats (mapper st) (resource_name c) = Some r"
  shows "\<exists>r'. stats (mapper (copy_step c cl D st p))
               = (stats (mapper st))(resource_name c \<mapsto> r')
          \<and> (if \<not> can_update c \<and> (\<exists>t. find_existing c (mapper st) p D = Inr (Some t))
              then r' = r
              else r' = r\<lparr>created := created r + 1\<rparr>
                 \<or> r' = r\<lparr>updated := updated r + 1\<rparr>
                 \<or> r' = r\<lparr>errors := errors r + 1\<rparr>)"
  using assms by (rule copy_step_counts)

theorem one_counter_per_record_witness:
  "stats (mapper \<lparr>requests = [], mapper = IDMapper_init\<rparr>) (resource_name ProductCopier)
     = Some zero_stats
   \<and> (\<exists>r'. stats (mapper (copy_step ProductCopier \<lparr>dry_run = False, api = (\<lambda>h c. Inl ''down'')\<rparr>
                   [] \<lparr>requests = [], mapper = IDMapper_init\<rparr>
                   \<lparr>ent_id = ''prod_A'', metadata = [], attrs = [(''name'', VStr ''Widget'')]\<rparr>))
             = (stats IDMapper_init)(''products'' \<mapsto> r')
          \<and> (r' = zero_stats\<lparr>created := 1\<rparr> \<or> r' = zero_stats\<lparr>updated := 1\<rparr>
              \<or> r' = zero_stats\<lparr>errors := 1\<rparr>))"
proof -
  have h: "stats (mapper \<lparr>requests = [], mapper = IDMapper_init\<rparr>) (resource_name ProductCopier)
             = Some zero_stats"
    by (simp add: IDMapper_init_def ProductCopier_def)
  from one_counter_per_record[OF h,
      of "\<lparr>dry_run = False, api = (\<lambda>h c. Inl ''down'')\<rparr>" "[]"
         "\<lparr>ent_id = ''prod_A'', metadata = [], attrs = [(''name'', VStr ''Widget'')]\<rparr>"]
  show ?thesis using h
    by (simp add: ProductCopier_def zero_stats_def)
qed

section \<open>The product scenario\<close>

text \<open>
  Claim C5. Source products \<open>[{id: "prod_A", name: "Widget"}]\<close>, no test product, dry-run
  off, and Stripe accepting the request: \<open>copy\<close> sends exactly one request, a product
  creation whose parameters are the name and \<open>metadata = {"prod_id": "prod_A"}\<close> (the
  source has no metadata), records the one mapping \<open>products["prod_A"]\<close> to the id of the
  object Stripe returned, and returns the counters created 1, updated 0, errors 0.
\<close>

theorem product_scenario:
  assumes ok: "api cl [] (ApiCreate ''products'' TEST
                  [(''name'', VStr ''Widget''),
                   (''metadata'', VObj [(''prod_id'', VStr ''prod_A'')])]) = Inr new_entity"
      and live: "\<not> dry_run cl"
  shows "copy ProductCopier cl \<lparr>requests = [], mapper = IDMapper_init\<rparr>
           (Inr [\<lparr>ent_id = ''prod_A'', metadata = [], attrs = [(''name'', VStr ''Widget'')]\<rparr>])
           (Inr [])
         = (Inr \<lparr>created = 1, updated = 0, errors = 0\<rparr>,
            \<lparr>requests = [ApiCreate ''products'' TEST
                  [(''name'', VStr ''Widget''),
                   (''metadata'', VObj [(''prod_id'', VStr ''prod_A'')])]],
             mapper = \<lparr>mappings = (mappings IDMapper_init)
                                    (''products'' \<mapsto> [''prod_A'' \<mapsto> ent_id new_entity]),
                       stats = (stats IDMapper_init)
                                    (''products'' \<mapsto> \<lparr>created = 1, updated = 0, errors = 0\<rparr>)\<rparr>\<rparr>)"
  using ok live
  by (simp add: copy_def copy_step_def copy_one_def create_in_test_def ProductCopier_def
      product_find_existing_def product_get_create_params_def e_getattr_def images_list_def
      feature_names_def e_truthy_attr_def e_attr_def add_params_def set_if_def metadata_copy_def
      tag_prod_id_def has_key_def create_def known_resource_def add_mapping_def
      increment_stat_def IDMapper_init_def zero_stats_def)

theorem product_scenario_witness:
  "fst (copy ProductCopier
          \<lparr>dry_run = False,
           api = (\<lambda>h c. Inr \<lparr>ent_id = ''prod_T1'', metadata = [(''prod_id'', ''prod_A'')],
                             attrs = [(''name'', VStr ''Widget'')]\<rparr>)\<rparr>
          \<lparr>requests = [], mapper = IDMapper_init\<rparr>
          (Inr [\<lparr>ent_id = ''prod_A'', metadata = [], attrs = [(''name'', VStr ''Widget'')]\<rparr>])
          (Inr []))
   = Inr \<lparr>created = 1, updated = 0, errors = 0\<rparr>"
  using product_scenario
    [of "\<lparr>dry_run = False,
          api = (\<lambda>h c. Inr \<lparr>ent_id = ''prod_T1'', metadata = [(''prod_id'', ''prod_A'')],
                            attrs = [(''name'', VStr ''Widget'')]\<rparr>)\<rparr>"
        "\<lparr>ent_id = ''prod_T1'', metadata = [(''prod_id'', ''prod_A'')],
          attrs = [(''name'', VStr ''Widget'')]\<rparr>"]
  by simp

section \<open>Dry-run creation\<close>

text \<open>
  Claim C3 at the product scenario with dry-run on. \<open>StripeClient.create\<close> sends nothing
  and returns the plain dict \<open>{"id": "dry_run_products_id", **params}\<close>; \<open>create_in_test\<close>
  then reads \<open>test_entity.id\<close>, which a dict does not have, and the \<open>AttributeError\<close> is
  caught by the loop of \<open>copy\<close>: no mapping is recorded, created stays 0 and errors
  becomes 1.
\<close>

theorem dry_run_create_counted_as_error:
  "create \<lparr>dry_run = True, api = a\<rparr> [] ''products'' TEST
       [(''name'', VStr ''Widget''), (''metadata'', VObj [(''prod_id'', VStr ''prod_A'')])]
     = (Inr (PlainDict [(''id'', VStr ''dry_run_products_id''), (''name'', VStr ''Widget''),
                        (''metadata'', VObj [(''prod_id'', VStr ''prod_A'')])]), [])
   \<and> copy ProductCopier \<lparr>dry_run = True, api = a\<rparr> \<lparr>requests = [], mapper = IDMapper_init\<rparr>
       (Inr [\<lparr>ent_id = ''prod_A'', metadata = [], attrs = [(''name'', VStr ''Widget'')]\<rparr>])
       (Inr [])
     = (Inr \<lparr>created = 0, updated = 0, errors = 1\<rparr>,
        \<lparr>requests = [],
         mapper = \<lparr>mappings = mappings IDMapper_init,
                   stats = (stats IDMapper_init)
                             (''products'' \<mapsto> \<lparr>created = 0, updated = 0, errors = 1\<rparr>)\<rparr>\<rparr>)"
  by (simp add: copy_def copy_step_def copy_one_def create_in_test_def ProductCopier_def
      product_find_existing_def product_get_create_params_def e_getattr_def images_list_def
      feature_names_def e_truthy_attr_def e_attr_def add_params_def set_if_def metadata_copy_def
      tag_prod_id_def has_key_def create_def dict_with_id_def
      increment_stat_def IDMapper_init_def zero_stats_def)

section \<open>The empty and the non-empty path of copy\<close>

text \<open>
  Claim C10, as stated, fails when the production listing is empty and the test listing
  raises: \<open>list_from_test\<close> is called before the emptiness test, so \<open>copy\<close> re-raises and
  returns no statistics.
\<close>

theorem empty_listing_can_still_raise:
  "copy ProductCopier \<lparr>dry_run = False, api = (\<lambda>h c. Inl ''unused'')\<rparr>
       \<lparr>requests = [], mapper = IDMapper_init\<rparr>
       (Inr [])
       (Inl (StripeClientError ''Error listing products: connection failed''))
     = (Inl (StripeClientError ''Error listing products: connection failed''),
        \<lparr>requests = [], mapper = IDMapper_init\<rparr>)"
  by (simp add: copy_def)

text \<open>
  Claim C10, amended. For every copier: if the production listing is empty and the test
  listing succeeds, \<open>copy\<close> returns the fresh record created 0, updated 0, errors 0
  whatever the mapper's counters are, and the state (requests sent, mappings, counters)
  is unchanged. If the production listing is not empty (and the kind has a counter record
  \<open>r\<close>), \<open>copy\<close> returns the mapper's own counter record of the kind as it is after the
  loop, which is cumulative: no counter is below its value in \<open>r\<close>.
\<close>

theorem copy_empty_and_nonempty:
  "copy c cl st (Inr []) (Inr D) = (Inr \<lparr>created = 0, updated = 0, errors = 0\<rparr>, st)
   \<and> (ps \<noteq> [] \<and> stats (mapper st) (resource_name c) = Some r \<longrightarrow>
        (\<exists>r'. copy c cl st (Inr ps) (Inr D) = (Inr r', foldl (copy_step c cl D) st ps)
            \<and> stats (mapper (foldl (copy_step c cl D) st ps)) (resource_name c) = Some r'
            \<and> created r \<le> created r' \<and> updated r \<le> updated r' \<and> errors r \<le> errors r'))"
proof (intro conjI impI)
  show "copy c cl st (Inr []) (Inr D) = (Inr \<lparr>created = 0, updated = 0, errors = 0\<rparr>, st)"
    by (simp add: copy_def zero_stats_def)
next
  assume h: "ps \<noteq> [] \<and> stats (mapper st) (resource_name c) = Some r"
  then have "stats (mapper st) (resource_name c) = Some r" by simp
  from copy_loop_mono[OF this, of cl D ps] obtain r' where
    r': "stats (mapper (foldl (copy_step c cl D) st ps)) (resource_name c) = Some r'"
    and le: "created r \<le> created r'" "updated r \<le> updated r'" "errors r \<le> errors r'"
    by blast
  from h r' have "copy c cl st (Inr ps) (Inr D) = (Inr r', foldl (copy_step c cl D) st ps)"
    by (simp add: copy_def Let_def)
  with r' le
  show "\<exists>r'. copy c cl st (Inr ps) (Inr D) = (Inr r', foldl (copy_step c cl D) st ps)
            \<and> stats (mapper (foldl (copy_step c cl D) st ps)) (resource_name c) = Some r'
            \<and> created r \<le> created r' \<and> updated r \<le> updated r' \<and> errors r \<le> errors r'"
    by blast
qed

theorem copy_empty_and_nonempty_witness:
  "copy ProductCopier \<lparr>dry_run = False, api = (\<lambda>h c. Inl ''down'')\<rparr>
       \<lparr>requests = [],
        mapper = IDMapper_init\<lparr>stats := (stats IDMapper_init)
                    (''products'' \<mapsto> \<lparr>created = 2, updated = 1, errors = 0\<rparr>)\<rparr>\<rparr>
       (Inr []) (Inr [])
     = (Inr \<lparr>created = 0, updated = 0, errors = 0\<rparr>,
        \<lparr>requests = [],
         mapper = IDMapper_init\<lparr>stats := (stats IDMapper_init)
                    (''products'' \<mapsto> \<lparr>created = 2, updated = 1, errors = 0\<rparr>)\<rparr>\<rparr>)
   \<and> (\<exists>r'. fst (copy ProductCopier \<lparr>dry_run = False, api = (\<lambda>h c. Inl ''down'')\<rparr>
                 \<lparr>requests = [],
                  mapper = IDMapper_init\<lparr>stats := (stats IDMapper_init)
                    (''products'' \<mapsto> \<lparr>created = 2, updated = 1, errors = 0\<rparr>)\<rparr>\<rparr>
                 (Inr [\<lparr>ent_id = ''prod_A'', metadata = [],
                        attrs = [(''name'', VStr ''Widget'')]\<rparr>])
                 (Inr []))
            = Inr r'
          \<and> 2 \<le> created r' \<and> 1 \<le> updated r' \<and> 0 \<le> errors r')"
proof -
  have h: "[\<lparr>ent_id = ''prod_A'', metadata = [], attrs = [(''name'', VStr ''Widget'')]\<rparr>] \<noteq> []
           \<and> stats (mapper \<lparr>requests = [],
                  mapper = IDMapper_init\<lparr>stats := (stats IDMapper_init)
                    (''products'' \<mapsto> \<lparr>created = 2, updated = 1, errors = 0\<rparr>)\<rparr>\<rparr>)
               (resource_name ProductCopier)
             = Some \<lparr>created = 2, updated = 1, errors = 0\<rparr>"
    by (simp add: ProductCopier_def)
  from copy_empty_and_nonempty
    [of ProductCopier "\<lparr>dry_run = False, api = (\<lambda>h c. Inl ''down'')\<rparr>"
        "\<lparr>requests = [],
          mapper = IDMapper_init\<lparr>stats := (stats IDMapper_init)
                    (''products'' \<mapsto> \<lparr>created = 2, updated = 1, errors = 0\<rparr>)\<rparr>\<rparr>"
        "[]"
        "[\<lparr>ent_id = ''prod_A'', metadata = [], attrs = [(''name'', VStr ''Widget'')]\<rparr>]"
        "\<lparr>created = 2, updated = 1, errors = 0\<rparr>"] h
  show ?thesis by auto
qed

section \<open>A price whose product is not mapped\<close>

lemma price_params_need_product:
  assumes "e_attr p ''product'' = Some ref" and "product_ref ref = VStr pid"
      and "get_test_id m ''products'' pid = None"
  shows "\<exists>e. price_get_create_params m p = Inl e"
  using assms
  by (cases "map_of (attrs p) ''currency''")
     (simp_all add: price_get_create_params_def e_getattr_def e_attr_def get_test_id_py_def)

text \<open>
  Claim C6. A source price, at any position of the production listing, whose product
  reference (an id, or an expanded object with an id) has no entry in the mapper's
  product table when the loop reaches it, and for which \<open>find_existing\<close> finds nothing:
  the iteration sends no request, changes no mapping and adds exactly one to the error
  counter of prices; \<open>copy\<close> does not raise, and the state it ends in is the one reached
  by running the loop body on every record that follows, starting from that
  error-counted state; the statistics it returns are the counters of that final state.
\<close>

theorem price_without_product_counts_one_error:
  assumes before: "sb = foldl (copy_step PriceCopier cl D) st before"
      and ref: "e_attr p ''product'' = Some ref" "product_ref ref = VStr pid"
      and unmapped: "get_test_id (mapper sb) ''products'' pid = None"
      and nomatch: "price_find_existing (mapper sb) p D = Inr None"
      and cnt: "stats (mapper sb) ''prices'' = Some r"
  shows "copy_step PriceCopier cl D sb p
           = sb\<lparr>mapper := (mapper sb)
                  \<lparr>stats := (stats (mapper sb))(''prices'' \<mapsto> r\<lparr>errors := errors r + 1\<rparr>)\<rparr>\<rparr>
       \<and> (\<exists>r'. copy PriceCopier cl st (Inr (before @ p # rest)) (Inr D)
                  = (Inr r',
                     foldl (copy_step PriceCopier cl D)
                       (sb\<lparr>mapper := (mapper sb)
                          \<lparr>stats := (stats (mapper sb))
                                      (''prices'' \<mapsto> r\<lparr>errors := errors r + 1\<rparr>)\<rparr>\<rparr>)
                       rest)
               \<and> stats (mapper (foldl (copy_step PriceCopier cl D)
                       (sb\<lparr>mapper := (mapper sb)
                          \<lparr>stats := (stats (mapper sb))
                                      (''prices'' \<mapsto> r\<lparr>errors := errors r + 1\<rparr>)\<rparr>\<rparr>)
                       rest)) ''prices'' = Some r'
               \<and> errors r + 1 \<le> errors r')"
proof -
  let ?sb1 = "sb\<lparr>mapper := (mapper sb)
                  \<lparr>stats := (stats (mapper sb))(''prices'' \<mapsto> r\<lparr>errors := errors r + 1\<rparr>)\<rparr>\<rparr>"
  from price_params_need_product[OF ref unmapped] obtain e where
    e: "price_get_create_params (mapper sb) p = Inl e" by blast
  have step: "copy_step PriceCopier cl D sb p = ?sb1"
    using e nomatch cnt
    by (simp add: copy_step_def copy_one_def create_in_test_def PriceCopier_def
        increment_stat_def)
  with before have loop: "foldl (copy_step PriceCopier cl D) st (before @ p # rest)
                     = foldl (copy_step PriceCopier cl D) ?sb1 rest"
    by simp
  have "stats (mapper ?sb1) (resource_name PriceCopier) = Some (r\<lparr>errors := errors r + 1\<rparr>)"
    by (simp add: PriceCopier_def)
  from copy_loop_mono[OF this, of cl D rest] obtain r' where
    r': "stats (mapper (foldl (copy_step PriceCopier cl D) ?sb1 rest)) (resource_name PriceCopier)
           = Some r'"
    and le: "errors (r\<lparr>errors := errors r + 1\<rparr>) \<le> errors r'"
    by blast
  from r' loop have "copy PriceCopier cl st (Inr (before @ p # rest)) (Inr D)
                       = (Inr r', foldl (copy_step PriceCopier cl D) ?sb1 rest)"
    by (simp add: copy_def Let_def del: foldl_append foldl_Cons)
  with r' le have "\<exists>r'. copy PriceCopier cl st (Inr (before @ p # rest)) (Inr D)
                  = (Inr r', foldl (copy_step PriceCopier cl D) ?sb1 rest)
               \<and> stats (mapper (foldl (copy_step PriceCopier cl D) ?sb1 rest)) ''prices''
                   = Some r'
               \<and> errors r + 1 \<le> errors r'"
    by (intro exI[of _ r']) (simp add: PriceCopier_def)
  with step show ?thesis by blast
qed

theorem price_without_product_counts_one_error_witness:
  "copy PriceCopier \<lparr>dry_run = False, api = (\<lambda>h c. Inl ''unused'')\<rparr>
       \<lparr>requests = [], mapper = IDMapper_init\<rparr>
       (Inr [\<lparr>ent_id = ''price_A'', metadata = [],
              attrs = [(''currency'', VStr ''usd''), (''product'', VStr ''prod_A''),
                       (''unit_amount'', VInt 1000)]\<rparr>,
             \<lparr>ent_id = ''price_B'', metadata = [],
              attrs = [(''currency'', VStr ''eur''), (''product'', VStr ''prod_B''),
                       (''unit_amount'', VInt 500)]\<rparr>])
       (Inr [])
     = (Inr \<lparr>created = 0, updated = 0, errors = 2\<rparr>,
        \<lparr>requests = [],
         mapper = IDMapper_init
           \<lparr>stats := (stats IDMapper_init)
                       (''prices'' \<mapsto> \<lparr>created = 0, updated = 0, errors = 2\<rparr>)\<rparr>\<rparr>)"
proof -
  let ?cl = "\<lparr>dry_run = False, api = (\<lambda>h c. Inl ''unused'')\<rparr>"
  let ?p = "\<lparr>ent_id = ''price_A'', metadata = [],
        attrs = [(''currency'', VStr ''usd''), (''product'', VStr ''prod_A''),
                 (''unit_amount'', VInt 1000)]\<rparr>"
  let ?q = "\<lparr>ent_id = ''price_B'', metadata = [],
        attrs = [(''currency'', VStr ''eur''), (''product'', VStr ''prod_B''),
                 (''unit_amount'', VInt 500)]\<rparr>"
  let ?st = "\<lparr>requests = [], mapper = IDMapper_init\<rparr>"
  let ?st1 = "?st\<lparr>mapper := (mapper ?st)
                  \<lparr>stats := (stats (mapper ?st))
                     (''prices'' \<mapsto> \<lparr>created = 0, updated = 0, errors = 0\<rparr>
                                      \<lparr>errors := errors \<lparr>created = 0, updated = 0, errors = 0\<rparr> + 1\<rparr>)\<rparr>\<rparr>"
  have 0: "?st = foldl (copy_step PriceCopier ?cl []) ?st []"
    by simp
  have 1: "e_attr ?p ''product'' = Some (VStr ''prod_A'')"
    by (simp add: e_attr_def)
  have 2: "product_ref (VStr ''prod_A'') = VStr ''prod_A''"
    by (simp add: product_ref_def)
  have 3: "get_test_id (mapper ?st) ''products'' ''prod_A'' = None"
    by (simp add: get_test_id_def IDMapper_init_def)
  have 4: "price_find_existing (mapper ?st) ?p [] = Inr None"
    by (simp add: price_find_existing_def e_truthy_attr_def e_getattr_def product_ref_def
        get_test_id_py_def get_test_id_def IDMapper_init_def)
  have 5: "stats (mapper ?st) ''prices'' = Some \<lparr>created = 0, updated = 0, errors = 0\<rparr>"
    by (simp add: IDMapper_init_def zero_stats_def)
  have rest: "foldl (copy_step PriceCopier ?cl []) ?st1 [?q]
      = \<lparr>requests = [],
         mapper = IDMapper_init
           \<lparr>stats := (stats IDMapper_init)
                       (''prices'' \<mapsto> \<lparr>created = 0, updated = 0, errors = 2\<rparr>)\<rparr>\<rparr>"
    by (simp add: copy_step_def copy_one_def create_in_test_def PriceCopier_def
        price_find_existing_def price_get_create_params_def e_truthy_attr_def e_getattr_def
        product_ref_def get_test_id_py_def get_test_id_def increment_stat_def
        IDMapper_init_def zero_stats_def)
  from price_without_product_counts_one_error[OF 0 1 2 3 4 5, of "[?q]"]
  show ?thesis
    unfolding rest by auto
qed

section \<open>The order in which the kinds are copied\<close>

text \<open>
  Claim C7 at the request \<open>--entities prices,products\<close>. The loop of \<open>main\<close> runs over the
  requested names in the order given, so prices are copied first, while the product table
  of the mapper is still empty: with one production product and one production price of
  that product and an empty test account, the price is counted as an error and only the
  product is created.
\<close>

theorem prices_requested_first_run_first:
  "entities_to_copy close ''prices,products'' = [''prices'', ''products'']
   \<and> main_copy close
       \<lparr>dry_run = False,
        api = (\<lambda>h c. Inr \<lparr>ent_id = ''prod_T'', metadata = [(''prod_id'', ''prod_A'')],
                          attrs = [(''name'', VStr ''Widget'')]\<rparr>)\<rparr>
       (\<lambda>resource env h.
          if env = TEST then Inr []
          else if resource = ''products''
            then Inr [\<lparr>ent_id = ''prod_A'', metadata = [],
                       attrs = [(''name'', VStr ''Widget'')]\<rparr>]
          else if resource = ''prices''
            then Inr [\<lparr>ent_id = ''price_A'', metadata = [],
                       attrs = [(''currency'', VStr ''usd''), (''product'', VStr ''prod_A''),
                                (''unit_amount'', VInt 1000)]\<rparr>]
          else Inr [])
       ''prices,products''
     = \<lparr>requests = [ApiCreate ''products'' TEST
                       [(''name'', VStr ''Widget''),
                        (''metadata'', VObj [(''prod_id'', VStr ''prod_A'')])]],
        mapper = \<lparr>mappings = (mappings IDMapper_init)
                               (''products'' \<mapsto> [''prod_A'' \<mapsto> ''prod_T'']),
                  stats = (stats IDMapper_init)
                            (''prices'' \<mapsto> \<lparr>created = 0, updated = 0, errors = 1\<rparr>,
                             ''products'' \<mapsto> \<lparr>created = 1, updated = 0, errors = 0\<rparr>)\<rparr>\<rparr>"
proof -
  have order: "entities_to_copy close ''prices,products'' = [''prices'', ''products'']"
    by (simp add: entities_to_copy_def copiers_map_def strip_def is_space_def)
  show ?thesis
    unfolding main_copy_def order
    by (simp add: order copy_entities_def copiers_map_def
      copy_def copy_step_def copy_one_def create_in_test_def ProductCopier_def PriceCopier_def
      product_find_existing_def product_get_create_params_def e_getattr_def images_list_def
      feature_names_def e_truthy_attr_def e_attr_def add_params_def set_if_def metadata_copy_def
      price_find_existing_def price_get_create_params_def product_ref_def get_test_id_py_def
      get_test_id_def
      tag_prod_id_def has_key_def create_def known_resource_def add_mapping_def
      increment_stat_def IDMapper_init_def zero_stats_def)
qed

section \<open>Coupons restricted to products\<close>

lemma map_of_dict_set:
  "map_of (dict_set k v d) k' = (if k' = k then Some v else map_of d k')"
  by (induction d) auto

lemma map_of_set_if:
  "map_of (set_if k vo d) k' =
     (if k' = k then (case vo of None \<Rightarrow> map_of d k' | Some v \<Rightarrow> Some v) else map_of d k')"
  by (simp add: set_if_def map_of_dict_set split: option.splits)

lemma map_product_ids_strings:
  "map_product_ids m (map VStr pids) =
     Inr (List.map_filter
            (\<lambda>pid. case get_test_id m ''products'' pid of
                      None \<Rightarrow> None
                    | Some t \<Rightarrow> if t \<noteq> [] then Some t else None) pids,
          map VStr (filter (\<lambda>pid. get_test_id m ''products'' pid = None
                                 \<or> get_test_id m ''products'' pid = Some []) pids))"
  by (induction pids)
     (auto simp: get_test_id_py_def split: option.splits)

text \<open>
  Claim C9. For a coupon whose \<open>applies_to.products\<close> is a list of product ids, whatever
  the mapper holds: \<open>get_create_params\<close> returns parameters (it does not raise, so the
  coupon goes on to be created); \<open>applies_to.products\<close> in them is the list of the test
  ids of the source ids that the mapper resolves to a non-empty test id, in order; the
  other source ids are dropped, each with a warning; and when none resolves the key
  \<open>applies_to\<close> is absent.
\<close>

theorem coupon_unmapped_products_dropped:
  assumes "e_attr p ''applies_to'' = Some a"
      and "v_attr a ''products'' = Some (VList (map VStr pids))"
  shows "\<exists>params.
           coupon_get_create_params m p = Inr params
         \<and> map_of params ''applies_to'' =
             (let test_ids =
                    List.map_filter
                      (\<lambda>pid. case get_test_id m ''products'' pid of
                                None \<Rightarrow> None
                              | Some t \<Rightarrow> if t \<noteq> [] then Some t else None) pids
              in if test_ids = [] then None
                 else Some (VObj [(''products'', VList (map VStr test_ids))]))
         \<and> coupon_warnings m p =
             Inr (map VStr (filter (\<lambda>pid. get_test_id m ''products'' pid = None
                                         \<or> get_test_id m ''products'' pid = Some []) pids))"
proof -
  from assms(2) obtain kvs where a: "a = VObj kvs"
    by (cases a) auto
  with assms(2) have "kvs \<noteq> []"
    by auto
  with a assms(1) have applies: "e_truthy_attr p ''applies_to'' = Some a"
    by (simp add: e_truthy_attr_def e_attr_def)
  show ?thesis
  proof (cases "pids = []")
    case True
    with assms(2) have "v_truthy_attr a ''products'' = None"
      by (simp add: v_truthy_attr_def)
    with applies True show ?thesis
      by (simp add: coupon_get_create_params_def coupon_warnings_def coupon_applies_to_def
          add_params_def map_of_set_if)
  next
    case False
    with assms(2) have "v_truthy_attr a ''products'' = Some (VList (map VStr pids))"
      by (simp add: v_truthy_attr_def)
    with applies show ?thesis
      by (simp add: coupon_get_create_params_def coupon_warnings_def coupon_applies_to_def
          map_product_ids_strings add_params_def map_of_set_if Let_def)
  qed
qed

theorem coupon_unmapped_products_dropped_witness:
  "\<exists>params.
     coupon_get_create_params
       (IDMapper_init\<lparr>mappings := (mappings IDMapper_init)
                         (''products'' \<mapsto> [''prod_A'' \<mapsto> ''prod_T''])\<rparr>)
       \<lparr>ent_id = ''SAVE20'', metadata = [],
        attrs = [(''percent_off'', VInt 20), (''duration'', VStr ''once''),
                 (''applies_to'',
                    VObj [(''products'', VList [VStr ''prod_A'', VStr ''prod_B''])])]\<rparr>
       = Inr params
   \<and> map_of params ''applies_to'' = Some (VObj [(''products'', VList [VStr ''prod_T''])])
   \<and> coupon_warnings
       (IDMapper_init\<lparr>mappings := (mappings IDMapper_init)
                         (''products'' \<mapsto> [''prod_A'' \<mapsto> ''prod_T''])\<rparr>)
       \<lparr>ent_id = ''SAVE20'', metadata = [],
        attrs = [(''percent_off'', VInt 20), (''duration'', VStr ''once''),
                 (''applies_to'',
                    VObj [(''products'', VList [VStr ''prod_A'', VStr ''prod_B''])])]\<rparr>
       = Inr [VStr ''prod_B'']"
proof -
  let ?p = "\<lparr>ent_id = ''SAVE20'', metadata = [],
        attrs = [(''percent_off'', VInt 20), (''duration'', VStr ''once''),
                 (''applies_to'',
                    VObj [(''products'', VList [VStr ''prod_A'', VStr ''prod_B''])])]\<rparr>"
  let ?a = "VObj [(''products'', VList [VStr ''prod_A'', VStr ''prod_B''])]"
  have 1: "e_attr ?p ''applies_to'' = Some ?a"
    by (simp add: e_attr_def)
  have 2: "v_attr ?a ''products'' = Some (VList (map VStr [''prod_A'', ''prod_B'']))"
    by simp
  from coupon_unmapped_products_dropped[OF 1 2,
      of "IDMapper_init\<lparr>mappings := (mappings IDMapper_init)
                         (''products'' \<mapsto> [''prod_A'' \<mapsto> ''prod_T''])\<rparr>"]
  show ?thesis
    by (simp add: get_test_id_def)
qed

section \<open>Structural matching of prices\<close>

lemma py_eq_None [simp]:
  "py_eq VNone x = (x = VNone)" "py_eq x VNone = (x = VNone)"
  by (cases x; simp add: py_eq_def)+

lemma e_notnone_attr_value [simp]: "e_notnone_attr e k \<noteq> Some VNone"
  by (simp add: e_notnone_attr_def split: option.splits)






section \<open>Running the copy a second time\<close>





lemma store_after_Nil [simp]: "store_after n D [] = D"
  by (simp add: store_after_def)
























lemma py_eq_refl [simp]: "py_eq v v"
  by (cases v) (simp_all add: py_eq_def)


subsection \<open>Products\<close>







subsection \<open>Coupons\<close>







subsection \<open>Tax rates\<close>





subsection \<open>Prices\<close>







subsection \<open>All four kinds\<close>








subsection \<open>The first run against the store\<close>













subsection \<open>The second run\<close>






end
